theory Spec2Isabelle
  imports Complex_Main
begin

section \<open>CareBot dashboard (src/App.vue): data model\<close>

text \<open>
  JavaScript strings are modelled as \<^typ>\<open>string\<close>; a literal of the source that is not
  ASCII is the list of its UTF-8 bytes, as it stands in the source file.
\<close>

text \<open>
  The field \<open>next_rotation_time\<close> of a status object, as the two places that read it see
  it: \<open>Absent\<close> is any falsy value (\<open>null\<close>, \<open>undefined\<close>, the empty string), for which
  \<open>!status.value?.next_rotation_time\<close> holds; \<open>Instant t\<close> is a truthy value that
  \<open>new Date(...)\<close> reads as the time value \<open>t\<close> (milliseconds since the epoch);
  \<open>Unparsable\<close> is a truthy value for which \<open>new Date(...)\<close> is an Invalid Date (time value NaN).
\<close>

datatype date_field = Absent | Instant int | Unparsable

record status_rec =
  current_position :: string
  current_position_ko :: string
  next_rotation_time :: date_field
  is_paused :: bool
  total_rotations :: "nat option"

record log_rec =
  log_time :: string
  log_level :: string
  log_message :: string

text \<open>
  The \<open>data\<close> member of a server message is untyped JSON; the shapes the dashboard reads are
  a status object and a log entry. \<open>Null\<close> stands for \<open>null\<close> and \<open>undefined\<close>.
\<close>

datatype payload = Null | StatusData status_rec | LogData log_rec

text \<open>The reactive state of the component (the \<open>ref\<close>s of \<open>script setup\<close>).\<close>

record dashboard =
  status :: payload
  eventLogs :: "payload list"
  aiSummary :: "string option"
  connectionStatus :: string
  isMoving :: bool
  isEmergencyStopped :: bool
  isLoadingAi :: bool
  currentTime :: string

definition initial :: dashboard where
  "initial = \<lparr> status = Null, eventLogs = [], aiSummary = None,
     connectionStatus = ''disconnected'', isMoving = False, isEmergencyStopped = False,
     isLoadingAi = False, currentTime = [] \<rparr>"

text \<open>
  Optional chaining on the status: \<open>status.value?.is_paused\<close> and
  \<open>status.value?.next_rotation_time\<close> are \<open>undefined\<close> when the status is \<open>null\<close> or an
  object without the member.
\<close>

fun paused :: "payload \<Rightarrow> bool" where
  "paused (StatusData s) = is_paused s"
| "paused _ = False"

fun next_time :: "payload \<Rightarrow> date_field" where
  "next_time (StatusData s) = next_rotation_time s"
| "next_time _ = Absent"

section \<open>WebSocket handler\<close>

text \<open>
  One WebSocket frame as \<open>ws.onmessage\<close> sees it: \<open>Malformed\<close> is a frame on which
  \<open>JSON.parse\<close> throws or whose value has no members to read (\<open>msg.type\<close> throws); the handler
  is left before any assignment. \<open>Msg t d\<close> is a parsed message with \<open>type = t\<close> and
  \<open>data = d\<close>.
\<close>

datatype ws_event = Malformed | Msg string payload

fun onmessage :: "ws_event \<Rightarrow> dashboard \<Rightarrow> dashboard" where
  "onmessage Malformed st = st"
| "onmessage (Msg t d) st =
     (if t = ''initial_status'' \<or> t = ''status_update'' then st\<lparr>status := d\<rparr>
      else if t = ''alert'' then
        (let logs = d # eventLogs st
         in st\<lparr>eventLogs := (if length logs > 100 then butlast logs else logs)\<rparr>)
      else if t = ''emergency_stop'' then st\<lparr>isEmergencyStopped := True, isMoving := False\<rparr>
      else st)"

text \<open>Processing a sequence of frames, oldest first.\<close>

fun process :: "ws_event list \<Rightarrow> dashboard \<Rightarrow> dashboard" where
  "process [] st = st"
| "process (e # es) st = process es (onmessage e st)"

text \<open>The payloads of the \<open>alert\<close> messages of a frame sequence, in arrival order.\<close>

fun alerts :: "ws_event list \<Rightarrow> payload list" where
  "alerts [] = []"
| "alerts (Malformed # es) = alerts es"
| "alerts (Msg t d # es) = (if t = ''alert'' then d # alerts es else alerts es)"

section \<open>Countdown display\<close>

text \<open>
  A JavaScript number as the countdown computes with it: an integer (time values and their
  differences are integral and below \<open>2^53\<close>, so the arithmetic of the source is exact on
  them) or \<open>NaN\<close>. Every operation of the source on a \<open>NaN\<close> gives \<open>NaN\<close>, also
  \<open>Math.max(0, NaN)\<close>.
\<close>

datatype js_number = NaN | Num int

fun lift :: "(int \<Rightarrow> int) \<Rightarrow> js_number \<Rightarrow> js_number" where
  "lift f NaN = NaN"
| "lift f (Num i) = Num (f i)"

text \<open>\<open>new Date(v)\<close> followed by the conversion to a number that the subtraction makes.\<close>

fun new_Date :: "date_field \<Rightarrow> js_number" where
  "new_Date (Instant t) = Num t"
| "new_Date _ = NaN"

text \<open>The decimal digits of a natural number, most significant first.\<close>

fun digits :: "nat \<Rightarrow> string" where
  "digits n = (if n < 10 then [''0123456789'' ! n]
               else digits (n div 10) @ [''0123456789'' ! (n mod 10)])"

declare digits.simps [simp del]

text \<open>\<open>String(x)\<close> on a number.\<close>

fun String_of :: "js_number \<Rightarrow> string" where
  "String_of NaN = ''NaN''"
| "String_of (Num i) = (if i < 0 then CHR ''-'' # digits (nat (- i)) else digits (nat i))"

text \<open>\<open>s.padStart(2, '0')\<close>.\<close>

definition padStart2 :: "string \<Rightarrow> string" where
  "padStart2 s = replicate (2 - length s) CHR ''0'' @ s"

text \<open>The literal shown while paused: U+23F8 U+FE0F, a space, and \<open>--:--\<close>.\<close>

definition paused_placeholder :: string where
  "paused_placeholder =
     [CHR 0xE2, CHR 0x8F, CHR 0xB8, CHR 0xEF, CHR 0xB8, CHR 0x8F] @ '' --:--''"

text \<open>
  The getter of the computed property \<open>nextRotationCountdown\<close>: what it returns when it
  runs, as a function of the value \<open>now\<close> that \<open>Date.now()\<close> has at that moment and of
  \<open>status.value\<close>. When it runs is a matter of the cache below.
\<close>

definition nextRotationCountdown :: "int \<Rightarrow> payload \<Rightarrow> string" where
  "nextRotationCountdown now st =
     (if next_time st = Absent then ''--:--''
      else if paused st then paused_placeholder
      else
        let next = new_Date (next_time st);
            diff = lift (\<lambda>t. max 0 (t - now)) next;
            mins = lift (\<lambda>d. d div 60000) diff;
            secs = lift (\<lambda>d. (d mod 60000) div 1000) diff
        in padStart2 (String_of mins) @ '':'' @ padStart2 (String_of secs))"

text \<open>
  The property is a Vue \<open>computed\<close>: its value is cached. The getter reads one reactive
  source, \<open>status.value\<close> (\<open>Date.now()\<close> is not reactive), so the cache is dropped when
  \<open>status.value\<close> is assigned and at no other time; a read that finds no cached value runs
  the getter and keeps the result, every other read returns the cached value. The cell is
  \<open>None\<close> before the first read and after an assignment.
\<close>

definition read_countdown :: "int \<Rightarrow> payload \<Rightarrow> string option \<Rightarrow> string \<times> string option" where
  "read_countdown now st cell =
     (case cell of
        None \<Rightarrow> (nextRotationCountdown now st, Some (nextRotationCountdown now st))
      | Some v \<Rightarrow> (v, Some v))"

text \<open>
  The life of the property: \<open>Assign v\<close> is an assignment \<open>status.value = v\<close> (made by
  \<open>ws.onmessage\<close> on a status message and by \<open>fetchStatus\<close> on a successful reply),
  \<open>Read now\<close> a read of the property (by a render) at the time \<open>now\<close>.
  \<open>countdown_reads\<close> gives the values the reads return, in order.
\<close>

datatype access = Assign payload | Read int

fun countdown_reads :: "access list \<Rightarrow> payload \<Rightarrow> string option \<Rightarrow> string list" where
  "countdown_reads [] st cell = []"
| "countdown_reads (Assign v # as) st cell = countdown_reads as v None"
| "countdown_reads (Read now # as) st cell =
     fst (read_countdown now st cell) # countdown_reads as st (snd (read_countdown now st cell))"

text \<open>The number a string of decimal digits denotes (used to state what \<open>digits\<close> prints).\<close>

definition digit_value :: "char \<Rightarrow> nat" where
  "digit_value c = of_char c - 48"

definition decimal_value :: "string \<Rightarrow> nat" where
  "decimal_value cs = foldl (\<lambda>acc c. 10 * acc + digit_value c) 0 cs"

section \<open>Requests and effects\<close>

text \<open>
  What a handler does besides changing the state, in the order it does it: the HTTP
  requests it issues (method, path under \<open>API_BASE\<close>, body), dialogs, console output, and
  timers it starts. \<open>Unhandled\<close> marks a handler whose promise rejects.
\<close>

datatype http_method = GET | POST

datatype request_body =
    NoBody
  | EmptyObject
  | RotateBody (position: string) (reason: string)

datatype effect =
    Fetch http_method string request_body
  | ConfirmBox
  | AlertBox string
  | ConsoleError
  | SetTimeout nat
  | Unhandled

text \<open>
  The outcome of the promises a handler awaits for one request: \<open>Rejected\<close> when
  \<open>fetch\<close> or \<open>res.json()\<close> rejects (or reading the reply throws), \<open>Fulfilled r\<close> with the
  parsed reply otherwise.
\<close>

datatype 'a outcome = Rejected | Fulfilled 'a

text \<open>
  A JSON reply of the API as the dashboard reads it: \<open>success\<close>, \<open>detail\<close> (the empty
  string when missing) and the member \<open>data\<close>.
\<close>

record 'a api_reply =
  success :: bool
  detail :: string
  reply_data :: 'a

text \<open>
  Modelled from the spec: the actuator identifiers and the safety verdicts of section 3
  (the control engine is not among the sources).
\<close>

datatype ActuatorId = HeadLeft | HeadRight | FootLeft | FootRight

datatype SafetyVerdict = Clear | EmergencyStopped | Overload ActuatorId | NoPatientDetected

text \<open>
  Modelled from the spec: the server that answers \<open>POST /api/scheduler/resume\<close> is not
  among the sources; its answer to a manual resume is the result type of section 6,
  \<open>Result<Ack, StillUnsafe(verdict)>\<close>. The dashboard never reads it.
\<close>

datatype resume_result = Ack | StillUnsafe SafetyVerdict

text \<open>The text of the \<open>reason\<close> member of a rotation request and of the failure dialog.\<close>

definition manual_reason :: string where
  "manual_reason =
     [CHR 0xEC, CHR 0x88, CHR 0x98, CHR 0xEB, CHR 0x8F, CHR 0x99, CHR '' '',
      CHR 0xEB, CHR 0xB3, CHR 0x80, CHR 0xED, CHR 0x99, CHR 0x98] @ '' / Manual rotation''"

definition rotate_failed :: string where
  "rotate_failed =
     [CHR 0xEC, CHR 0x9E, CHR 0x90, CHR 0xEC, CHR 0x84, CHR 0xB8, CHR '' '',
      CHR 0xEB, CHR 0xB3, CHR 0x80, CHR 0xED, CHR 0x99, CHR 0x98, CHR '' '',
      CHR 0xEC, CHR 0x8B, CHR 0xA4, CHR 0xED, CHR 0x8C, CHR 0xA8] @ '': ''"

definition unknown_error :: string where
  "unknown_error =
     [CHR 0xEC, CHR 0x95, CHR 0x8C, CHR '' '', CHR 0xEC, CHR 0x88, CHR 0x98, CHR '' '',
      CHR 0xEC, CHR 0x97, CHR 0x86, CHR 0xEB, CHR 0x8A, CHR 0x94, CHR '' '',
      CHR 0xEC, CHR 0x98, CHR 0xA4, CHR 0xEB, CHR 0xA5, CHR 0x98]"

definition ai_error :: string where
  "ai_error =
     ''AI '' @ [CHR 0xEB, CHR 0xB6, CHR 0x84, CHR 0xEC, CHR 0x84, CHR 0x9D, CHR '' '',
      CHR 0xEC, CHR 0xA4, CHR 0x91, CHR '' '', CHR 0xEC, CHR 0x98, CHR 0xA4, CHR 0xEB, CHR 0xA5,
      CHR 0x98, CHR 0xEA, CHR 0xB0, CHR 0x80, CHR '' '', CHR 0xEB, CHR 0xB0, CHR 0x9C, CHR 0xEC,
      CHR 0x83, CHR 0x9D, CHR 0xED, CHR 0x96, CHR 0x88, CHR 0xEC, CHR 0x8A, CHR 0xB5, CHR 0xEB,
      CHR 0x8B, CHR 0x88, CHR 0xEB, CHR 0x8B, CHR 0xA4] @ ''. / AI analysis error occurred.''"

section \<open>API calls\<close>

text \<open>
  An \<open>async\<close> function is one transition of the state, given the outcomes of the promises
  it awaits; it returns the new state and the effects in order.
\<close>

definition fetchStatus :: "payload api_reply outcome \<Rightarrow> dashboard \<Rightarrow> dashboard \<times> effect list" where
  "fetchStatus reply st =
     (case reply of
        Rejected \<Rightarrow> (st, [Fetch GET ''/api/status'' NoBody, ConsoleError])
      | Fulfilled data \<Rightarrow>
          (if success data then st\<lparr>status := reply_data data\<rparr> else st,
           [Fetch GET ''/api/status'' NoBody]))"

definition rotateToPosition ::
  "string \<Rightarrow> unit api_reply outcome \<Rightarrow> dashboard \<Rightarrow> dashboard \<times> effect list" where
  "rotateToPosition positionValue reply st =
     (if isMoving st then (st, [])
      else
        let st1 = st\<lparr>isMoving := True\<rparr>;
            req = Fetch POST ''/api/position/rotate'' (RotateBody positionValue manual_reason)
        in case reply of
             Rejected \<Rightarrow> (st1\<lparr>isMoving := False\<rparr>, [req, ConsoleError])
           | Fulfilled data \<Rightarrow>
               if \<not> success data
               then (st1\<lparr>isMoving := False\<rparr>,
                     [req, AlertBox (rotate_failed @
                        (if detail data = [] then unknown_error else detail data))])
               else (st1, [req, SetTimeout 20000]))"

text \<open>The callback of the 20 second timer that a successful rotation request starts.\<close>

definition rotation_timeout :: "dashboard \<Rightarrow> dashboard" where
  "rotation_timeout st = st\<lparr>isMoving := False\<rparr>"

text \<open>
  \<open>triggerEmergencyStop\<close>: the first argument is the operator's answer to \<open>confirm(...)\<close>,
  the second the outcome of the awaited \<open>fetch\<close> (its reply is not read).
\<close>

definition triggerEmergencyStop ::
  "bool \<Rightarrow> unit outcome \<Rightarrow> dashboard \<Rightarrow> dashboard \<times> effect list" where
  "triggerEmergencyStop confirmed reply st =
     (if \<not> confirmed then (st, [ConfirmBox])
      else case reply of
             Fulfilled _ \<Rightarrow>
               (st\<lparr>isEmergencyStopped := True, isMoving := False\<rparr>,
                [ConfirmBox, Fetch POST ''/api/emergency-stop'' NoBody])
           | Rejected \<Rightarrow>
               (st, [ConfirmBox, Fetch POST ''/api/emergency-stop'' NoBody, ConsoleError]))"

definition pauseSchedule ::
  "unit outcome \<Rightarrow> payload api_reply outcome \<Rightarrow> dashboard \<Rightarrow> dashboard \<times> effect list" where
  "pauseSchedule reply status_reply st =
     (case reply of
        Rejected \<Rightarrow> (st, [Fetch POST ''/api/scheduler/pause'' EmptyObject, Unhandled])
      | Fulfilled _ \<Rightarrow>
          (let (st', effs) = fetchStatus status_reply st
           in (st', Fetch POST ''/api/scheduler/pause'' EmptyObject # effs)))"

definition resumeSchedule ::
  "resume_result outcome \<Rightarrow> payload api_reply outcome \<Rightarrow> dashboard \<Rightarrow> dashboard \<times> effect list" where
  "resumeSchedule reply status_reply st =
     (case reply of
        Rejected \<Rightarrow> (st, [Fetch POST ''/api/scheduler/resume'' NoBody, Unhandled])
      | Fulfilled _ \<Rightarrow>
          (let (st', effs) = fetchStatus status_reply st
           in (st', Fetch POST ''/api/scheduler/resume'' NoBody # effs)))"

definition resumeAfterEmergency ::
  "resume_result outcome \<Rightarrow> payload api_reply outcome \<Rightarrow> dashboard \<Rightarrow> dashboard \<times> effect list" where
  "resumeAfterEmergency reply status_reply st =
     resumeSchedule reply status_reply (st\<lparr>isEmergencyStopped := False\<rparr>)"

text \<open>
  \<open>fetchAiSummary\<close>; the reply's \<open>data\<close> is \<open>None\<close> when \<open>data.data\<close> is missing, so that
  reading \<open>data.data.summary\<close> throws into the \<open>catch\<close>.
\<close>

definition fetchAiSummary ::
  "string option api_reply outcome \<Rightarrow> dashboard \<Rightarrow> dashboard \<times> effect list" where
  "fetchAiSummary reply st =
     (let st1 = st\<lparr>isLoadingAi := True\<rparr>;
          req = Fetch GET ''/api/ai/summary'' NoBody;
          st2 = (case reply of
                   Rejected \<Rightarrow> st1\<lparr>aiSummary := Some ai_error\<rparr>
                 | Fulfilled data \<Rightarrow>
                     if success data
                     then (case reply_data data of
                             None \<Rightarrow> st1\<lparr>aiSummary := Some ai_error\<rparr>
                           | Some summary \<Rightarrow> st1\<lparr>aiSummary := Some summary\<rparr>)
                     else st1)
      in (st2\<lparr>isLoadingAi := False\<rparr>, [req]))"

section \<open>The template: which handler an event reaches\<close>

text \<open>The position list; \<open>nameKo\<close> and \<open>emoji\<close> are display text only and left out.\<close>

record position_entry =
  pvalue :: string
  nameEn :: string

definition positions :: "position_entry list" where
  "positions =
     [\<lparr>pvalue = ''supine'', nameEn = ''Supine''\<rparr>,
      \<lparr>pvalue = ''left_lateral'', nameEn = ''Left Lateral''\<rparr>,
      \<lparr>pvalue = ''right_lateral'', nameEn = ''Right Lateral''\<rparr>]"

text \<open>
  Whether the template renders at all. The rows of the log read \<open>log.level\<close>,
  \<open>log.time\<close> and \<open>log.message\<close> of every entry; on an entry that is \<open>null\<close> or
  \<open>undefined\<close> (the handler of \<open>alert\<close> stores \<open>msg.data\<close> as it comes) the render
  function throws; Vue (production build) then puts an empty node in the place of the
  component, which is left without any element, so without buttons, for as long as such
  an entry is in the log.
\<close>

definition rendered :: "dashboard \<Rightarrow> bool" where
  "rendered st = (Null \<notin> set (eventLogs st))"

text \<open>
  A button is activated with the pointer or from the keyboard. While \<open>isMoving\<close> the
  overlay (\<open>fixed inset-0\<close>, \<open>z-50\<close>) lies over the whole page and takes every pointer
  click; it does not take the keyboard focus.
\<close>

datatype device = Pointer | Keyboard

definition reaches :: "device \<Rightarrow> dashboard \<Rightarrow> bool" where
  "reaches dev st = (rendered st \<and> (dev = Keyboard \<or> \<not> isMoving st))"

text \<open>
  The events of the component. A click carries the device and the outcomes its handler
  will await. \<open>ClickPosition dev i\<close> is a click on the \<open>i\<close>-th button of the \<open>v-for\<close> over
  \<open>positions\<close>.
\<close>

datatype event =
    WsOpen
  | WsMessage ws_event
  | WsClose
  | ClickPosition device nat "unit api_reply outcome"
  | ClickPause device "unit outcome" "payload api_reply outcome"
  | ClickResumeSchedule device "resume_result outcome" "payload api_reply outcome"
  | ClickEmergencyStop device bool "unit outcome"
  | ClickResume device "resume_result outcome" "payload api_reply outcome"
  | ClickReanalyze device "string option api_reply outcome"
  | RotationTimeout
  | ClockTick string
  | PollStatus "payload api_reply outcome"

text \<open>
  A click is delivered to its handler only if it reaches the button (\<open>reaches\<close>) and the
  button is rendered (\<open>v-if\<close>) and not disabled (\<open>:disabled\<close>): the position buttons are
  disabled while \<open>isMoving || isEmergencyStopped\<close>, the pause button is rendered while the
  status is not paused and the schedule-resume button otherwise, the resume button of the
  emergency banner only while \<open>isEmergencyStopped\<close>, the re-analyse button is disabled
  while \<open>isLoadingAi\<close>. The emergency-stop button has no \<open>v-if\<close> and no \<open>:disabled\<close> of
  its own. A click that is not delivered changes nothing.
\<close>

fun handle :: "event \<Rightarrow> dashboard \<Rightarrow> dashboard \<times> effect list" where
  "handle WsOpen st = (st\<lparr>connectionStatus := ''connected''\<rparr>, [])"
| "handle (WsMessage m) st = (onmessage m st, [])"
| "handle WsClose st = (st\<lparr>connectionStatus := ''disconnected''\<rparr>, [SetTimeout 5000])"
| "handle (ClickPosition dev i reply) st =
     (if reaches dev st \<and> i < length positions \<and> \<not> (isMoving st \<or> isEmergencyStopped st)
      then rotateToPosition (pvalue (positions ! i)) reply st else (st, []))"
| "handle (ClickPause dev reply sr) st =
     (if reaches dev st \<and> \<not> paused (status st) then pauseSchedule reply sr st else (st, []))"
| "handle (ClickResumeSchedule dev reply sr) st =
     (if reaches dev st \<and> paused (status st) then resumeSchedule reply sr st else (st, []))"
| "handle (ClickEmergencyStop dev confirmed reply) st =
     (if reaches dev st then triggerEmergencyStop confirmed reply st else (st, []))"
| "handle (ClickResume dev reply sr) st =
     (if reaches dev st \<and> isEmergencyStopped st then resumeAfterEmergency reply sr st
      else (st, []))"
| "handle (ClickReanalyze dev reply) st =
     (if reaches dev st \<and> \<not> isLoadingAi st then fetchAiSummary reply st else (st, []))"
| "handle RotationTimeout st = (rotation_timeout st, [])"
| "handle (ClockTick now) st = (st\<lparr>currentTime := now\<rparr>, [])"
| "handle (PollStatus sr) st = fetchStatus sr st"

text \<open>The clicks on the resume button of the emergency banner.\<close>

fun is_resume :: "event \<Rightarrow> bool" where
  "is_resume (ClickResume dev reply sr) = True"
| "is_resume _ = False"

text \<open>A run of the component: the state after a sequence of events, and all effects.\<close>

fun run :: "event list \<Rightarrow> dashboard \<Rightarrow> dashboard \<times> effect list" where
  "run [] st = (st, [])"
| "run (e # es) st =
     (let (st1, effs1) = handle e st; (st2, effs2) = run es st1 in (st2, effs1 @ effs2))"

text \<open>The position values carried by the rotation requests among some effects.\<close>

fun requested_positions :: "effect list \<Rightarrow> string list" where
  "requested_positions [] = []"
| "requested_positions (Fetch m path (RotateBody p r) # effs) = p # requested_positions effs"
| "requested_positions (_ # effs) = requested_positions effs"

section \<open>The control engine, from the specification\<close>

text \<open>
  The control engine (\<open>carebot_core\<close>) is not among the sources. The three definitions
  below follow sections 3 and 4 of the specification, each of them only as far as the theorems below
  need it.
\<close>

text \<open>
  Modelled from the spec: one reading of the signals the Safety Monitor evaluates (section
  4.1): the debounced interlock (physical button or software flag), the sticky latch of an
  emergency stop observed earlier, the drive current of each channel, the four pressure
  readings; and the two configured thresholds.
\<close>

record readings =
  interlock :: bool
  latched :: bool
  drive_current :: "ActuatorId \<Rightarrow> rat"
  pressure :: "rat list"

record thresholds =
  overload_threshold :: rat
  presence_threshold :: rat

definition channels :: "ActuatorId list" where
  "channels = [HeadLeft, HeadRight, FootLeft, FootRight]"

text \<open>
  Modelled from the spec: the Safety Monitor's \<open>check()\<close> of section 4.1, which is missing
  from the sources. Emergency stop has the highest priority, overload the second (the
  first channel over the threshold, in the order of \<open>channels\<close>), patient presence (the
  aggregate of the pressure readings against the presence threshold) the lowest.
\<close>

definition check :: "thresholds \<Rightarrow> readings \<Rightarrow> SafetyVerdict" where
  "check cfg r =
     (if interlock r \<or> latched r then EmergencyStopped
      else case filter (\<lambda>c. overload_threshold cfg < drive_current r c) channels of
             c # _ \<Rightarrow> Overload c
           | [] \<Rightarrow>
               if sum_list (pressure r) < presence_threshold cfg then NoPatientDetected
               else Clear)"

text \<open>
  Modelled from the spec: the positions of section 3, the planner's two failures, and the
  lookup table of canonical extensions of section 4.2 (\<open>cal\<close> is its calibration value).
  A target arrives under the name the dashboard sends (\<open>positions\<close>).
\<close>

datatype Position = Supine | LeftLateral30 | RightLateral30

datatype plan_error = InvalidTarget | InvalidStepCount

definition position_of :: "string \<Rightarrow> Position option" where
  "position_of name =
     (if name = ''supine'' then Some Supine
      else if name = ''left_lateral'' then Some LeftLateral30
      else if name = ''right_lateral'' then Some RightLateral30
      else None)"

fun canonical :: "rat \<Rightarrow> Position \<Rightarrow> ActuatorId \<Rightarrow> rat" where
  "canonical cal Supine a = 0"
| "canonical cal LeftLateral30 a = (if a = HeadLeft \<or> a = FootLeft then cal else 0)"
| "canonical cal RightLateral30 a = (if a = HeadRight \<or> a = FootRight then cal else 0)"

text \<open>
  Modelled from the spec: the Motion Planner's \<open>plan(current, target, stepCount)\<close> of
  section 4.2, which is missing from the sources. Extensions are exact rationals; step
  \<open>i\<close> of \<open>1 .. stepCount\<close> puts an actuator at \<open>start + (end - start) * i / stepCount\<close>.
\<close>

definition interpolate :: "rat \<Rightarrow> rat \<Rightarrow> nat \<Rightarrow> nat \<Rightarrow> rat" where
  "interpolate start target i stepCount = start + (target - start) * of_nat i / of_nat stepCount"

definition plan ::
  "rat \<Rightarrow> Position \<Rightarrow> string \<Rightarrow> int \<Rightarrow> plan_error + (ActuatorId \<Rightarrow> rat) list" where
  "plan cal current target stepCount =
     (case position_of target of
        None \<Rightarrow> Inl InvalidTarget
      | Some tgt \<Rightarrow>
          if stepCount < 1 then Inl InvalidStepCount
          else Inr (map (\<lambda>i a. interpolate (canonical cal current a) (canonical cal tgt a)
                                  i (nat stepCount))
                        [1 ..< Suc (nat stepCount)]))"

text \<open>Modelled from the spec: the state of the Rotation Scheduler (section 4.3).\<close>

record scheduler =
  lastRotation :: int
  interval :: int
  sched_paused :: bool

text \<open>
  Modelled from the spec: the Rotation Scheduler's \<open>isDue(now)\<close> of section 4.3, which is
  missing from the sources. The due time is \<open>lastRotation + interval\<close>; while paused
  nothing is due.
\<close>

definition isDue :: "scheduler \<Rightarrow> int \<Rightarrow> bool" where
  "isDue s now = (if sched_paused s then False else lastRotation s + interval s \<le> now)"

section \<open>Theorems\<close>

text \<open>
  C10. A message of type \<open>emergency_stop\<close> sets \<open>isEmergencyStopped\<close> to true and
  \<open>isMoving\<close> to false; every other part of the state (status, event log, AI summary,
  connection status, and the rest) is what it was.
\<close>

theorem emergency_stop_message_frame:
  "onmessage (Msg ''emergency_stop'' d) st = st\<lparr>isEmergencyStopped := True, isMoving := False\<rparr>
   \<and> isEmergencyStopped (onmessage (Msg ''emergency_stop'' d) st)
   \<and> \<not> isMoving (onmessage (Msg ''emergency_stop'' d) st)
   \<and> status (onmessage (Msg ''emergency_stop'' d) st) = status st
   \<and> eventLogs (onmessage (Msg ''emergency_stop'' d) st) = eventLogs st
   \<and> aiSummary (onmessage (Msg ''emergency_stop'' d) st) = aiSummary st
   \<and> connectionStatus (onmessage (Msg ''emergency_stop'' d) st) = connectionStatus st"
  by simp

subsection \<open>Event log\<close>

lemma take_append_take: "take n (xs @ take n ys) = take n (xs @ ys)"
  by simp

lemma pop_is_take:
  assumes "length logs \<le> 100"
  shows "(if length (d # logs) > 100 then butlast (d # logs) else d # logs) = take 100 (d # logs)"
proof (cases "length logs = 100")
  case True
  then have "butlast (d # logs) = take 100 (d # logs)"
    by (simp only: butlast_conv_take length_Cons diff_Suc_1)
  then show ?thesis using True by simp
next
  case False
  then show ?thesis using assms by simp
qed

lemma onmessage_logs_take:
  assumes len: "length (eventLogs st) \<le> 100"
  shows "eventLogs (onmessage e st) = take 100 (rev (alerts [e]) @ eventLogs st)"
proof (cases e)
  case Malformed
  then show ?thesis using len by simp
next
  case (Msg t d)
  show ?thesis
  proof (cases "t = ''alert''")
    case False
    then show ?thesis using Msg len by auto
  next
    case True
    then show ?thesis using Msg pop_is_take [OF len, of d] by (simp add: Let_def)
  qed
qed

lemma process_logs:
  "length (eventLogs st) \<le> 100 \<Longrightarrow>
   eventLogs (process es st) = take 100 (rev (alerts es) @ eventLogs st)"
proof (induction es arbitrary: st)
  case Nil
  then show ?case by simp
next
  case (Cons e es)
  have step: "eventLogs (onmessage e st) = take 100 (rev (alerts [e]) @ eventLogs st)"
    using Cons.prems by (rule onmessage_logs_take)
  then have "length (eventLogs (onmessage e st)) \<le> 100" by simp
  then have "eventLogs (process es (onmessage e st))
      = take 100 (rev (alerts es) @ eventLogs (onmessage e st))"
    by (rule Cons.IH)
  also have "\<dots> = take 100 (rev (alerts es) @ rev (alerts [e]) @ eventLogs st)"
    unfolding step by (rule take_append_take)
  also have "rev (alerts es) @ rev (alerts [e]) @ eventLogs st = rev (alerts (e # es)) @ eventLogs st"
    by (cases e) auto
  finally show ?case by simp
qed

lemma alert_step:
  "eventLogs (onmessage (Msg ''alert'' d) st) =
     (if length (eventLogs st) < 100 then d # eventLogs st else d # butlast (eventLogs st))"
  by (auto simp: Let_def)

lemma other_step:
  "t \<noteq> ''alert'' \<Longrightarrow> eventLogs (onmessage (Msg t d) st) = eventLogs st"
  by simp

text \<open>
  C9. From a log of at most 100 entries (the initial log is empty), processing any sequence
  of WebSocket frames leaves at most 100 entries, newest first: the log is the first 100
  of the alert payloads in reverse arrival order followed by the old entries. One alert
  puts its entry in front and, when the log was full, drops the last (oldest) one; a
  message of any other type and a malformed frame leave the log as it was.
\<close>

theorem event_log_bounded_newest_first:
  assumes "length (eventLogs st) \<le> 100"
  shows "length (eventLogs (process es st)) \<le> 100
    \<and> eventLogs (process es st) = take 100 (rev (alerts es) @ eventLogs st)
    \<and> eventLogs (onmessage (Msg ''alert'' d) st) =
        (if length (eventLogs st) < 100 then d # eventLogs st else d # butlast (eventLogs st))
    \<and> (t \<noteq> ''alert'' \<longrightarrow> eventLogs (onmessage (Msg t d) st) = eventLogs st)
    \<and> eventLogs (onmessage Malformed st) = eventLogs st"
proof -
  have eq: "eventLogs (process es st) = take 100 (rev (alerts es) @ eventLogs st)"
    using assms by (rule process_logs)
  have "length (eventLogs (process es st)) \<le> 100"
    unfolding eq by simp
  then show ?thesis
    using eq alert_step [of d st] other_step [of t d st] by simp
qed

theorem event_log_bounded_newest_first_witness:
  "length (eventLogs initial) \<le> 100
   \<and> length (eventLogs (process (replicate 150 (Msg ''alert'' Null)) initial)) \<le> 100
   \<and> eventLogs (process [Msg ''alert'' Null, Msg ''ping'' Null, Malformed,
         Msg ''alert'' (LogData \<lparr>log_time = ''t'', log_level = ''info'', log_message = ''m''\<rparr>)] initial)
       = [LogData \<lparr>log_time = ''t'', log_level = ''info'', log_message = ''m''\<rparr>, Null]
   \<and> ''ping'' \<noteq> ''alert''
   \<and> eventLogs (onmessage (Msg ''ping'' Null) initial) = eventLogs initial"
proof -
  have h: "length (eventLogs initial) \<le> 100" by (simp add: initial_def)
  show ?thesis
    using h
      event_log_bounded_newest_first [OF h, of "replicate 150 (Msg ''alert'' Null)" Null "''ping''"]
      event_log_bounded_newest_first [OF h, of "[Msg ''alert'' Null, Msg ''ping'' Null, Malformed,
         Msg ''alert'' (LogData \<lparr>log_time = ''t'', log_level = ''info'', log_message = ''m''\<rparr>)]" Null "''ping''"]
    by (simp add: initial_def)
qed

subsection \<open>Runs\<close>

lemma fst_run_Cons: "fst (run (e # es) st) = fst (run es (fst (handle e st)))"
  by (simp add: split_beta)

lemma snd_run_Cons:
  "snd (run (e # es) st) = snd (handle e st) @ snd (run es (fst (handle e st)))"
  by (simp add: split_beta)

subsection \<open>The emergency flag\<close>

lemma onmessage_keeps_flag:
  "isEmergencyStopped st \<Longrightarrow> isEmergencyStopped (onmessage m st)"
  by (cases m) (simp_all add: Let_def)

lemma fetchStatus_flag:
  "isEmergencyStopped (fst (fetchStatus sr st)) = isEmergencyStopped st"
  by (simp add: fetchStatus_def split: outcome.splits)

lemma rotateToPosition_flag:
  "isEmergencyStopped (fst (rotateToPosition p reply st)) = isEmergencyStopped st"
  by (simp add: rotateToPosition_def Let_def split: outcome.splits)

lemma triggerEmergencyStop_keeps_flag:
  "isEmergencyStopped st \<Longrightarrow> isEmergencyStopped (fst (triggerEmergencyStop c reply st))"
  by (simp add: triggerEmergencyStop_def split: outcome.splits)

lemma pauseSchedule_flag:
  "isEmergencyStopped (fst (pauseSchedule reply sr st)) = isEmergencyStopped st"
  by (simp add: pauseSchedule_def split_beta fetchStatus_flag split: outcome.splits)

lemma resumeSchedule_flag:
  "isEmergencyStopped (fst (resumeSchedule reply sr st)) = isEmergencyStopped st"
  by (simp add: resumeSchedule_def split_beta fetchStatus_flag split: outcome.splits)

lemma fetchAiSummary_flag:
  "isEmergencyStopped (fst (fetchAiSummary reply st)) = isEmergencyStopped st"
  by (simp add: fetchAiSummary_def Let_def split: outcome.splits option.splits)

lemma handle_keeps_flag:
  assumes "isEmergencyStopped st" and "\<not> is_resume ev"
  shows "isEmergencyStopped (fst (handle ev st))"
  using assms
  by (cases ev)
     (simp_all add: onmessage_keeps_flag fetchStatus_flag rotateToPosition_flag
        triggerEmergencyStop_keeps_flag pauseSchedule_flag resumeSchedule_flag
        fetchAiSummary_flag rotation_timeout_def)

lemma run_keeps_flag:
  "isEmergencyStopped st \<Longrightarrow> list_all (\<lambda>e. \<not> is_resume e) evs \<Longrightarrow>
   isEmergencyStopped (fst (run evs st))"
proof (induction evs arbitrary: st)
  case Nil
  then show ?case by simp
next
  case (Cons e es)
  from Cons.prems have "isEmergencyStopped (fst (handle e st))"
    by (simp add: handle_keeps_flag)
  moreover from Cons.prems have "list_all (\<lambda>e. \<not> is_resume e) es" by simp
  ultimately have "isEmergencyStopped (fst (run es (fst (handle e st))))"
    by (rule Cons.IH)
  then show ?case by (simp only: fst_run_Cons)
qed

lemma resume_clears_flag:
  "\<not> isEmergencyStopped (fst (resumeAfterEmergency reply sr st))"
  by (simp add: resumeAfterEmergency_def resumeSchedule_flag)

text \<open>
  C1, as stated, fails: with the flag set, a click on the resume button clears it although
  the server answers the resume call with \<open>StillUnsafe\<close>, and also when the call cannot be
  made at all. The handler clears the flag before it awaits the call and never reads the
  answer.
\<close>

theorem resume_clears_flag_although_still_unsafe:
  "isEmergencyStopped (initial\<lparr>isEmergencyStopped := True\<rparr>)
   \<and> \<not> isEmergencyStopped (fst (handle (ClickResume Pointer (Fulfilled (StillUnsafe EmergencyStopped)) Rejected)
          (initial\<lparr>isEmergencyStopped := True\<rparr>)))
   \<and> \<not> isEmergencyStopped (fst (resumeAfterEmergency Rejected Rejected
          (initial\<lparr>isEmergencyStopped := True\<rparr>)))"
  by (simp add: resumeAfterEmergency_def resumeSchedule_def fetchStatus_def initial_def
        reaches_def rendered_def)

text \<open>
  C1, amended. The emergency-stopped flag is never cleared without an explicit manual
  resume: from a state with the flag set, every event that is not a click on the resume
  button (WebSocket traffic, status polls, rotation, pause and schedule-resume clicks,
  emergency-stop clicks, timers, re-analysis) leaves it set, and so does every run made of
  such events.
\<close>

theorem emergency_flag_cleared_only_by_resume:
  assumes "isEmergencyStopped st"
  shows "(\<not> is_resume ev \<longrightarrow> isEmergencyStopped (fst (handle ev st)))
    \<and> (list_all (\<lambda>e. \<not> is_resume e) evs \<longrightarrow> isEmergencyStopped (fst (run evs st)))"
  using assms handle_keeps_flag [of st ev] run_keeps_flag [of st evs] by blast

theorem emergency_flag_cleared_only_by_resume_witness:
  "isEmergencyStopped (fst (handle (ClickEmergencyStop Pointer True (Fulfilled ())) initial))
   \<and> \<not> is_resume (WsMessage (Msg ''status_update'' Null))
   \<and> isEmergencyStopped (fst (handle (WsMessage (Msg ''status_update'' Null))
        (fst (handle (ClickEmergencyStop Pointer True (Fulfilled ())) initial))))
   \<and> list_all (\<lambda>e. \<not> is_resume e) [WsOpen, PollStatus Rejected, RotationTimeout, ClickResumeSchedule Pointer (Fulfilled Ack) Rejected]
   \<and> isEmergencyStopped (fst (run [WsOpen, PollStatus Rejected, RotationTimeout, ClickResumeSchedule Pointer (Fulfilled Ack) Rejected]
        (fst (handle (ClickEmergencyStop Pointer True (Fulfilled ())) initial))))"
proof -
  have h: "isEmergencyStopped (fst (handle (ClickEmergencyStop Pointer True (Fulfilled ())) initial))"
    by (simp add: triggerEmergencyStop_def reaches_def rendered_def initial_def)
  show ?thesis
    using h emergency_flag_cleared_only_by_resume [OF h,
        of "WsMessage (Msg ''status_update'' Null)"
           "[WsOpen, PollStatus Rejected, RotationTimeout, ClickResumeSchedule Pointer (Fulfilled Ack) Rejected]"]
    by simp
qed

subsection \<open>Emergency stop\<close>

text \<open>
  C2, as stated, fails: when the operator declines the confirmation dialog, or when the
  request cannot be sent, the state is not emergency-stopped afterwards (and a movement
  shown as in progress stays so).
\<close>

theorem emergency_stop_not_always_accepted:
  "\<not> isEmergencyStopped (fst (triggerEmergencyStop False (Fulfilled ()) initial))
   \<and> \<not> isEmergencyStopped (fst (triggerEmergencyStop True Rejected initial))
   \<and> isMoving (fst (triggerEmergencyStop False (Fulfilled ()) (initial\<lparr>isMoving := True\<rparr>)))"
  by (simp add: triggerEmergencyStop_def initial_def)

text \<open>
  C2, amended. In every state (moving or not, paused or not, already stopped or not) a
  call of \<open>triggerEmergencyStop\<close> that the operator confirms and whose \<open>fetch\<close> resolves
  (whatever the reply) leaves \<open>isEmergencyStopped\<close> true and \<open>isMoving\<close> false, changing
  nothing else; a declined confirmation sends no request and leaves the state as it was.
\<close>

theorem emergency_stop_confirmed_and_sent:
  "triggerEmergencyStop True (Fulfilled r) st =
     (st\<lparr>isEmergencyStopped := True, isMoving := False\<rparr>,
      [ConfirmBox, Fetch POST ''/api/emergency-stop'' NoBody])
   \<and> isEmergencyStopped (fst (triggerEmergencyStop True (Fulfilled r) st))
   \<and> \<not> isMoving (fst (triggerEmergencyStop True (Fulfilled r) st))
   \<and> triggerEmergencyStop False reply st = (st, [ConfirmBox])"
  by (simp add: triggerEmergencyStop_def)

theorem emergency_stop_confirmed_and_sent_witness:
  "isMoving (initial\<lparr>isMoving := True, status := StatusData \<lparr>current_position = ''supine'',
       current_position_ko = [], next_rotation_time = Absent, is_paused = True,
       total_rotations = None\<rparr>\<rparr>)
   \<and> isEmergencyStopped (fst (triggerEmergencyStop True (Fulfilled ())
        (initial\<lparr>isMoving := True, status := StatusData \<lparr>current_position = ''supine'',
           current_position_ko = [], next_rotation_time = Absent, is_paused = True,
           total_rotations = None\<rparr>\<rparr>)))
   \<and> \<not> isMoving (fst (triggerEmergencyStop True (Fulfilled ())
        (initial\<lparr>isMoving := True, status := StatusData \<lparr>current_position = ''supine'',
           current_position_ko = [], next_rotation_time = Absent, is_paused = True,
           total_rotations = None\<rparr>\<rparr>)))"
  using
    emergency_stop_confirmed_and_sent [of "()" "initial\<lparr>isMoving := True,
       status := StatusData \<lparr>current_position = ''supine'',
           current_position_ko = [], next_rotation_time = Absent, is_paused = True,
           total_rotations = None\<rparr>\<rparr>" Rejected]
  by (simp add: initial_def)

text \<open>
  When the emergency-stop button can be pressed: a click reaches \<open>triggerEmergencyStop\<close>
  exactly when the template renders and, for the pointer, no movement overlay is shown.
\<close>

lemma emergency_stop_click_delivery:
  "handle (ClickEmergencyStop dev confirmed reply) st =
     (if rendered st \<and> (dev = Keyboard \<or> \<not> isMoving st)
      then triggerEmergencyStop confirmed reply st else (st, []))"
  by (simp add: reaches_def)

subsection \<open>Rotation requests\<close>

text \<open>
  C3. A rotation request made while \<open>isMoving\<close> holds is refused at the guard: no request
  is sent to the server, no timer is started, nothing is queued, and the state (with the
  movement in progress) is exactly what it was. This holds for \<open>rotateToPosition\<close> itself
  and for a click on any position button.
\<close>

theorem rotation_while_moving_is_dropped:
  assumes "isMoving st"
  shows "rotateToPosition p reply st = (st, [])
    \<and> handle (ClickPosition dev i reply) st = (st, [])"
  using assms by (simp add: rotateToPosition_def)

theorem rotation_while_moving_is_dropped_witness:
  "isMoving (fst (rotateToPosition ''left_lateral''
       (Fulfilled \<lparr>success = True, detail = [], reply_data = ()\<rparr>) initial))
   \<and> rotateToPosition ''supine'' Rejected
        (fst (rotateToPosition ''left_lateral''
           (Fulfilled \<lparr>success = True, detail = [], reply_data = ()\<rparr>) initial))
      = (fst (rotateToPosition ''left_lateral''
           (Fulfilled \<lparr>success = True, detail = [], reply_data = ()\<rparr>) initial), [])"
proof -
  have h: "isMoving (fst (rotateToPosition ''left_lateral''
       (Fulfilled \<lparr>success = True, detail = [], reply_data = ()\<rparr>) initial))"
    by (simp add: rotateToPosition_def initial_def)
  show ?thesis
    using h rotation_while_moving_is_dropped [OF h, of "''supine''" Rejected Pointer 0] by simp
qed

lemma requested_positions_append:
  "requested_positions (xs @ ys) = requested_positions xs @ requested_positions ys"
  by (induction xs rule: requested_positions.induct) simp_all

lemma fetchStatus_requests: "requested_positions (snd (fetchStatus sr st)) = []"
  by (simp add: fetchStatus_def split: outcome.splits)

lemma rotateToPosition_requests:
  "set (requested_positions (snd (rotateToPosition p reply st))) \<subseteq> {p}"
  by (simp add: rotateToPosition_def Let_def split: outcome.splits)

lemma pvalue_positions:
  "i < length positions \<Longrightarrow>
   pvalue (positions ! i) \<in> {''supine'', ''left_lateral'', ''right_lateral''}"
  by (auto simp: positions_def nth_Cons split: nat.splits)

lemma handle_requests:
  "set (requested_positions (snd (handle ev st)))
     \<subseteq> {''supine'', ''left_lateral'', ''right_lateral''}"
proof (cases ev)
  case (ClickPosition dev i reply)
  show ?thesis
  proof (cases "reaches dev st \<and> i < length positions \<and> \<not> (isMoving st \<or> isEmergencyStopped st)")
    case True
    then have "pvalue (positions ! i) \<in> {''supine'', ''left_lateral'', ''right_lateral''}"
      using pvalue_positions [of i] by blast
    with rotateToPosition_requests [of "pvalue (positions ! i)" reply st]
    show ?thesis using ClickPosition True by auto
  next
    case False
    then show ?thesis using ClickPosition by auto
  qed
qed (simp_all add: fetchStatus_requests pauseSchedule_def resumeSchedule_def
       resumeAfterEmergency_def triggerEmergencyStop_def fetchAiSummary_def Let_def split_beta
       split: outcome.splits)

lemma run_requests:
  "set (requested_positions (snd (run evs st)))
     \<subseteq> {''supine'', ''left_lateral'', ''right_lateral''}"
proof (induction evs arbitrary: st)
  case Nil
  then show ?case by simp
next
  case (Cons e es)
  show ?case
    unfolding snd_run_Cons requested_positions_append set_append
    using handle_requests [of e st] Cons.IH [of "fst (handle e st)"] by blast
qed

lemma plan_known_target:
  "p \<in> {''supine'', ''left_lateral'', ''right_lateral''} \<Longrightarrow> plan cal cur p n \<noteq> Inl InvalidTarget"
  by (auto simp: plan_def position_of_def)

text \<open>
  C7. Every rotation request issued in any run of the dashboard, from any state, carries a
  position value of the position list, that is one of \<open>supine\<close>, \<open>left_lateral\<close>,
  \<open>right_lateral\<close>; the planner never answers such a target with \<open>InvalidTarget\<close>.
\<close>

theorem dashboard_rotation_targets_valid:
  assumes "p \<in> set (requested_positions (snd (run evs st)))"
  shows "p \<in> {''supine'', ''left_lateral'', ''right_lateral''}
    \<and> p \<in> set (map pvalue positions)
    \<and> plan cal cur p n \<noteq> Inl InvalidTarget"
proof -
  have p: "p \<in> {''supine'', ''left_lateral'', ''right_lateral''}"
    using assms run_requests [of evs st] by blast
  then have "p \<in> set (map pvalue positions)"
    by (auto simp: positions_def)
  with p plan_known_target [OF p] show ?thesis by simp
qed

theorem dashboard_rotation_targets_valid_witness:
  "''left_lateral'' \<in> set (requested_positions (snd (run
       [WsOpen, ClickPosition Pointer 1 (Fulfilled \<lparr>success = True, detail = [], reply_data = ()\<rparr>)] initial)))
   \<and> ''left_lateral'' \<in> set (map pvalue positions)
   \<and> plan (3/4) Supine ''left_lateral'' 30 \<noteq> Inl InvalidTarget"
proof -
  have h: "''left_lateral'' \<in> set (requested_positions (snd (run
       [WsOpen, ClickPosition Pointer 1 (Fulfilled \<lparr>success = True, detail = [], reply_data = ()\<rparr>)] initial)))"
    by (simp add: rotateToPosition_def positions_def initial_def reaches_def rendered_def)
  show ?thesis
    using h dashboard_rotation_targets_valid [OF h, of "3/4" Supine 30] by simp
qed

subsection \<open>Safety priority\<close>

text \<open>
  C4. Whenever the emergency-stop condition holds (the interlock reads true, or the latch
  is set), \<open>check\<close> returns \<open>EmergencyStopped\<close>, whatever the currents and pressures are:
  in particular when a channel is over its threshold at the same time.
\<close>

theorem check_emergency_stop_priority:
  assumes "interlock r \<or> latched r"
  shows "check cfg r = EmergencyStopped"
  using assms by (simp add: check_def)

theorem check_emergency_stop_priority_witness:
  "(interlock \<lparr>interlock = True, latched = False, drive_current = (\<lambda>c. 5), pressure = [1, 1, 1, 1]\<rparr>
      \<or> latched \<lparr>interlock = True, latched = False, drive_current = (\<lambda>c. 5), pressure = [1, 1, 1, 1]\<rparr>)
   \<and> check \<lparr>overload_threshold = 2, presence_threshold = 1\<rparr>
        \<lparr>interlock = True, latched = False, drive_current = (\<lambda>c. 5), pressure = [1, 1, 1, 1]\<rparr>
      = EmergencyStopped
   \<and> check \<lparr>overload_threshold = 2, presence_threshold = 1\<rparr>
        \<lparr>interlock = False, latched = False, drive_current = (\<lambda>c. 5), pressure = [1, 1, 1, 1]\<rparr>
      = Overload HeadLeft"
proof -
  have h: "interlock \<lparr>interlock = True, latched = False, drive_current = (\<lambda>c. 5::rat), pressure = [1, 1, 1, 1]\<rparr>
      \<or> latched \<lparr>interlock = True, latched = False, drive_current = (\<lambda>c. 5::rat), pressure = [1, 1, 1, 1]\<rparr>"
    by simp
  show ?thesis
    using h check_emergency_stop_priority [OF h, of "\<lparr>overload_threshold = 2, presence_threshold = 1\<rparr>"]
    by (simp add: check_def channels_def)
qed

subsection \<open>Motion plan\<close>

lemma plan_value:
  assumes "position_of target = Some tgt" and "1 \<le> n"
  shows "plan cal cur target n =
    Inr (map (\<lambda>i a. interpolate (canonical cal cur a) (canonical cal tgt a) i (nat n))
             [1 ..< Suc (nat n)])"
  using assms by (simp add: plan_def)

lemma interpolate_last: "0 < m \<Longrightarrow> interpolate x y m m = y"
  by (simp add: interpolate_def)

lemma interpolate_first_delta:
  "0 < m \<Longrightarrow> \<bar>interpolate x y 1 m - x\<bar> \<le> \<bar>y - x\<bar> / of_nat m"
  by (simp add: interpolate_def abs_divide)

text \<open>
  C5. For a current position and a target name of one of the three positions, and every
  step count \<open>n \<ge> 1\<close>, \<open>plan\<close> succeeds with \<open>n\<close> steps; step \<open>i\<close> (counted from 1) puts
  each actuator at \<open>start + (end - start) * i / n\<close>; the first step moves each actuator by
  at most \<open>1/n\<close> of its full delta; the last step is the target's canonical vector.
\<close>

theorem plan_linear_first_last:
  assumes "position_of target = Some tgt" and "1 \<le> n"
  shows "\<exists>p. plan cal cur target n = Inr p
    \<and> length p = nat n
    \<and> (\<forall>i < nat n. \<forall>a. (p ! i) a =
          canonical cal cur a + (canonical cal tgt a - canonical cal cur a) * of_nat (Suc i) / of_int n)
    \<and> (\<forall>a. \<bar>hd p a - canonical cal cur a\<bar> \<le> \<bar>canonical cal tgt a - canonical cal cur a\<bar> / of_int n)
    \<and> last p = canonical cal tgt"
proof -
  define m where "m = nat n"
  define step where
    "step = (\<lambda>i a. interpolate (canonical cal cur a) (canonical cal tgt a) i m)"
  define p where "p = map step [1 ..< Suc m]"
  have m: "0 < m" and nm: "of_int n = (of_nat m :: rat)"
    using assms(2) by (simp_all add: m_def)
  have pl: "plan cal cur target n = Inr p"
    using plan_value [OF assms] by (simp add: p_def step_def m_def)
  have len: "length p = m" by (simp add: p_def)
  have nth: "(p ! i) a = canonical cal cur a
      + (canonical cal tgt a - canonical cal cur a) * of_nat (Suc i) / of_int n"
    if "i < m" for i a
  proof -
    have "[1 ..< Suc m] ! i = Suc i" using that by (simp add: nth_upt del: upt_Suc)
    then have "p ! i = step (Suc i)" using that by (simp add: p_def del: upt_Suc)
    then show ?thesis by (simp add: step_def interpolate_def nm)
  qed
  have ne: "[1 ..< Suc m] \<noteq> []" using m by simp
  have "hd p = step 1"
    using m by (simp add: p_def upt_conv_Cons del: upt_Suc)
  then have first: "\<bar>hd p a - canonical cal cur a\<bar>
      \<le> \<bar>canonical cal tgt a - canonical cal cur a\<bar> / of_int n" for a
    using interpolate_first_delta [OF m] by (simp add: step_def nm)
  have "last p = step m"
    using m by (simp add: p_def)
  then have "last p = canonical cal tgt"
    using interpolate_last [OF m] by (simp add: step_def fun_eq_iff)
  with pl len nth first show ?thesis
    unfolding m_def by blast
qed

theorem plan_linear_first_last_witness:
  "position_of ''left_lateral'' = Some LeftLateral30 \<and> (1::int) \<le> 3
   \<and> (\<exists>p. plan (3/4) Supine ''left_lateral'' 3 = Inr p \<and> length p = 3
        \<and> (p ! 1) HeadLeft = 1/2
        \<and> \<bar>hd p HeadLeft - 0\<bar> \<le> \<bar>3/4 - 0\<bar> / 3
        \<and> last p = canonical (3/4) LeftLateral30)"
proof -
  have h1: "position_of ''left_lateral'' = Some LeftLateral30"
    by (simp add: position_of_def)
  have h2: "(1::int) \<le> 3" by simp
  from plan_linear_first_last [OF h1 h2, of "3/4" Supine]
  obtain p where p: "plan (3/4) Supine ''left_lateral'' 3 = Inr p" "length p = nat 3"
    "\<forall>i < nat 3. \<forall>a. (p ! i) a = canonical (3/4) Supine a
        + (canonical (3/4) LeftLateral30 a - canonical (3/4) Supine a) * of_nat (Suc i) / of_int 3"
    "\<forall>a. \<bar>hd p a - canonical (3/4) Supine a\<bar>
        \<le> \<bar>canonical (3/4) LeftLateral30 a - canonical (3/4) Supine a\<bar> / of_int 3"
    "last p = canonical (3/4) LeftLateral30"
    by blast
  have "(1::nat) < nat 3" by simp
  with p(3) have "(p ! 1) HeadLeft = canonical (3/4) Supine HeadLeft
        + (canonical (3/4) LeftLateral30 HeadLeft - canonical (3/4) Supine HeadLeft)
            * of_nat (Suc 1) / of_int 3"
    by blast
  then have "(p ! 1) HeadLeft = 1/2" by simp
  moreover from p(4) have "\<bar>hd p HeadLeft - canonical (3/4) Supine HeadLeft\<bar>
        \<le> \<bar>canonical (3/4) LeftLateral30 HeadLeft - canonical (3/4) Supine HeadLeft\<bar> / of_int 3"
    by (rule spec)
  then have "\<bar>hd p HeadLeft - 0\<bar> \<le> \<bar>3/4 - 0\<bar> / 3" by simp
  ultimately show ?thesis using h1 p(1,2,5) by auto
qed

subsection \<open>Countdown\<close>

lemma digit_char_value: "k < 10 \<Longrightarrow> digit_value (''0123456789'' ! k) = k"
proof -
  assume "k < 10"
  then have "k = 0 \<or> k = 1 \<or> k = 2 \<or> k = 3 \<or> k = 4 \<or> k = 5 \<or> k = 6
    \<or> k = 7 \<or> k = 8 \<or> k = 9" by arith
  then show ?thesis by (elim disjE) (simp_all add: digit_value_def)
qed

lemma decimal_value_snoc: "decimal_value (cs @ [c]) = 10 * decimal_value cs + digit_value c"
  by (simp add: decimal_value_def)

lemma decimal_value_single: "decimal_value [c] = digit_value c"
  by (simp add: decimal_value_def)

lemma digits_lt10: "n < 10 \<Longrightarrow> digits n = [''0123456789'' ! n]"
  by (subst digits.simps) simp

lemma digits_ge10: "10 \<le> n \<Longrightarrow> digits n = digits (n div 10) @ [''0123456789'' ! (n mod 10)]"
  by (subst digits.simps) simp

lemma decimal_value_digits: "decimal_value (digits n) = n"
proof (induction n rule: digits.induct)
  case (1 n)
  show ?case
  proof (cases "n < 10")
    case True
    then show ?thesis
      using digit_char_value [of n] by (simp only: digits_lt10 decimal_value_single)
  next
    case False
    then have "decimal_value (digits (n div 10)) = n div 10" by (rule "1.IH")
    moreover have "digit_value (''0123456789'' ! (n mod 10)) = n mod 10"
      by (rule digit_char_value) simp
    moreover have "digits n = digits (n div 10) @ [''0123456789'' ! (n mod 10)]"
      using False by (intro digits_ge10) simp
    ultimately show ?thesis
      by (simp only: decimal_value_snoc) simp
  qed
qed

lemma digits_nonempty: "1 \<le> length (digits n)"
  by (cases "n < 10") (simp_all add: digits_lt10 digits_ge10)

lemma digits_length_small: "n < 100 \<Longrightarrow> length (digits n) \<le> 2"
proof -
  assume n: "n < 100"
  show ?thesis
  proof (cases "n < 10")
    case True
    then show ?thesis by (simp add: digits_lt10)
  next
    case False
    then have a: "digits n = digits (n div 10) @ [''0123456789'' ! (n mod 10)]"
      by (intro digits_ge10) simp
    have "n div 10 < 10" using n by simp
    then have "digits (n div 10) = [''0123456789'' ! (n div 10)]"
      by (rule digits_lt10)
    with a show ?thesis by simp
  qed
qed

lemma digits_length_large: "100 \<le> n \<Longrightarrow> 3 \<le> length (digits n)"
proof -
  assume n: "100 \<le> n"
  have a: "digits n = digits (n div 10) @ [''0123456789'' ! (n mod 10)]"
    using n by (intro digits_ge10) simp
  have b: "digits (n div 10) = digits (n div 10 div 10) @ [''0123456789'' ! (n div 10 mod 10)]"
    using n by (intro digits_ge10) simp
  have "length (digits n) = length (digits (n div 10 div 10)) + 2"
    by (simp only: a b length_append) simp
  then show ?thesis
    using digits_nonempty [of "n div 10 div 10"] by linarith
qed

lemma padStart2_length: "length (padStart2 s) = max 2 (length s)"
  by (simp add: padStart2_def)

lemma padStart2_two: "n < 100 \<Longrightarrow> length (padStart2 (digits n)) = 2"
  using digits_length_small [of n] by (simp add: padStart2_length)

lemma digits_0: "digits 0 = ''0''"
  by (simp add: digits_lt10)

lemma digits_100: "digits 100 = ''100''"
proof -
  have "digits 1 = ''1''" by (simp add: digits_lt10)
  then have "digits 10 = ''10''" by (simp add: digits_ge10 [of 10])
  then show ?thesis by (simp add: digits_ge10 [of 100])
qed

lemma countdown_instant:
  assumes "\<not> paused st" and "next_time st = Instant t"
  shows "nextRotationCountdown now st =
    padStart2 (digits (nat (max 0 (t - now)) div 60000)) @ '':'' @
    padStart2 (digits (nat (max 0 (t - now)) mod 60000 div 1000))"
proof -
  have "nat (max 0 (t - now) div 60000) = nat (max 0 (t - now)) div 60000"
    by (simp add: nat_div_distrib)
  moreover have "nat (max 0 (t - now) mod 60000 div 1000) = nat (max 0 (t - now)) mod 60000 div 1000"
    by (simp add: nat_div_distrib nat_mod_distrib)
  moreover have "\<not> max 0 (t - now) div 60000 < 0" "\<not> max 0 (t - now) mod 60000 div 1000 < 0"
    by (simp_all add: pos_imp_zdiv_nonneg_iff)
  moreover have "nextRotationCountdown now st =
      padStart2 (String_of (Num (max 0 (t - now) div 60000))) @ '':'' @
      padStart2 (String_of (Num (max 0 (t - now) mod 60000 div 1000)))"
    using assms by (simp add: nextRotationCountdown_def Let_def)
  ultimately show ?thesis
    by (simp only: String_of.simps if_False)
qed

lemma countdown_unparsable:
  "\<not> paused st \<Longrightarrow> next_time st = Unparsable \<Longrightarrow> nextRotationCountdown now st = ''NaN:NaN''"
  by (simp add: nextRotationCountdown_def Let_def padStart2_def)

lemma reads_cached: "countdown_reads (map Read ts) st (Some v) = replicate (length ts) v"
  by (induction ts) (simp_all add: read_countdown_def)

lemma reads_after_assign:
  "countdown_reads (Assign st # Read now # map Read ts) st0 cell0
     = replicate (Suc (length ts)) (nextRotationCountdown now st)"
  by (simp add: read_countdown_def reads_cached)

lemma countdown_100_minutes:
  "nextRotationCountdown 0 (StatusData \<lparr>current_position = ''supine'', current_position_ko = [],
       next_rotation_time = Instant 6000000, is_paused = False, total_rotations = None\<rparr>)
   = ''100:00''"
proof -
  have "nat (max 0 (6000000 - 0)) div 60000 = 100"
    and "nat (max 0 (6000000 - 0)) mod 60000 div 1000 = 0" by simp_all
  moreover have "nextRotationCountdown 0 (StatusData \<lparr>current_position = ''supine'',
       current_position_ko = [], next_rotation_time = Instant 6000000, is_paused = False,
       total_rotations = None\<rparr>)
     = padStart2 (digits (nat (max 0 (6000000 - 0)) div 60000)) @ '':'' @
       padStart2 (digits (nat (max 0 (6000000 - 0)) mod 60000 div 1000))"
    by (rule countdown_instant) simp_all
  ultimately show ?thesis
    by (simp only: digits_100 digits_0) (simp add: padStart2_def)
qed

lemma countdown_62_03:
  "nextRotationCountdown 1000 (StatusData \<lparr>current_position = ''supine'', current_position_ko = [],
       next_rotation_time = Instant 3724000, is_paused = False, total_rotations = Some 3\<rparr>)
   = ''62:03''"
proof -
  have "nextRotationCountdown 1000 (StatusData \<lparr>current_position = ''supine'', current_position_ko = [],
       next_rotation_time = Instant 3724000, is_paused = False, total_rotations = Some 3\<rparr>)
     = padStart2 (digits (nat (max 0 (3724000 - 1000)) div 60000)) @ '':'' @
       padStart2 (digits (nat (max 0 (3724000 - 1000)) mod 60000 div 1000))"
    by (rule countdown_instant) simp_all
  then show ?thesis
    by (simp add: digits_lt10 digits_ge10 padStart2_def)
qed

text \<open>
  C8, as stated, fails twice. With 100 minutes to go the countdown is \<open>100:00\<close>, three
  digits of minutes. And the value is cached: computed at time 1000 for a rotation due at
  3724000, it is still \<open>62:03\<close> when it is read at time 4000000, after the due time, as
  long as the status has not been assigned again.
\<close>

theorem countdown_three_minute_digits:
  "nextRotationCountdown 0 (StatusData \<lparr>current_position = ''supine'', current_position_ko = [],
       next_rotation_time = Instant 6000000, is_paused = False, total_rotations = None\<rparr>)
   = ''100:00''
   \<and> countdown_reads
        [Assign (StatusData \<lparr>current_position = ''supine'', current_position_ko = [],
       next_rotation_time = Instant 3724000, is_paused = False, total_rotations = Some 3\<rparr>),
         Read 1000, Read 4000000] Null None
     = [''62:03'', ''62:03'']"
  by (simp add: countdown_100_minutes countdown_62_03 read_countdown_def)

text \<open>
  C8, amended. The countdown is total and clamped at the moment it is computed. Let \<open>now\<close>
  be the time at which the getter runs. If \<open>next_rotation_time\<close> is absent the value is
  \<open>--:--\<close>. If the schedule is not paused and \<open>next_rotation_time\<close> is an instant \<open>t\<close>, then
  with \<open>d\<close> the milliseconds from \<open>now\<close> to \<open>t\<close>, clamped at zero, it is the decimal
  minutes \<open>d div 60000\<close> padded with zeros to at least two digits, a colon, and the decimal
  seconds \<open>d mod 60000 div 1000\<close> padded to exactly two digits; it is five characters long
  whenever less than 100 minutes remain; and for \<open>t\<close> at or before \<open>now\<close> it is \<open>00:00\<close>.
  The value is then kept: after an assignment of the status, the first read runs the
  getter, and every later read returns that same value, whatever the time of the read.
\<close>

theorem countdown_total_clamped:
  fixes now t :: int
  defines "d \<equiv> nat (max 0 (t - now))"
  shows "(next_time st = Absent \<longrightarrow> nextRotationCountdown now st = ''--:--'')
    \<and> (\<not> paused st \<and> next_time st = Instant t \<longrightarrow>
         nextRotationCountdown now st =
           padStart2 (digits (d div 60000)) @ '':'' @ padStart2 (digits (d mod 60000 div 1000))
         \<and> decimal_value (digits (d div 60000)) = d div 60000
         \<and> decimal_value (digits (d mod 60000 div 1000)) = d mod 60000 div 1000
         \<and> d mod 60000 div 1000 < 60
         \<and> length (padStart2 (digits (d mod 60000 div 1000))) = 2
         \<and> 2 \<le> length (padStart2 (digits (d div 60000)))
         \<and> (d < 6000000 \<longrightarrow> length (nextRotationCountdown now st) = 5))
    \<and> (\<not> paused st \<and> next_time st = Instant t \<and> t \<le> now \<longrightarrow>
         nextRotationCountdown now st = ''00:00'')
    \<and> countdown_reads (Assign st # Read now # map Read ts) st0 cell0
         = replicate (Suc (length ts)) (nextRotationCountdown now st)"
proof -
  have absent: "next_time st = Absent \<longrightarrow> nextRotationCountdown now st = ''--:--''"
    by (simp add: nextRotationCountdown_def)
  have secs: "d mod 60000 div 1000 < 60" by simp
  have slen: "length (padStart2 (digits (d mod 60000 div 1000))) = 2"
    using secs by (intro padStart2_two) simp
  have mlen: "2 \<le> length (padStart2 (digits (d div 60000)))"
    by (simp add: padStart2_length)
  have fmt: "nextRotationCountdown now st =
      padStart2 (digits (d div 60000)) @ '':'' @ padStart2 (digits (d mod 60000 div 1000))"
    if "\<not> paused st" "next_time st = Instant t"
    using countdown_instant [OF that] by (simp add: d_def)
  have five: "length (nextRotationCountdown now st) = 5"
    if "\<not> paused st" "next_time st = Instant t" "d < 6000000"
  proof -
    have "d div 60000 < 100" using that(3) by simp
    then have "length (padStart2 (digits (d div 60000))) = 2" by (rule padStart2_two)
    then show ?thesis using fmt [OF that(1,2)] slen by simp
  qed
  have zero: "nextRotationCountdown now st = ''00:00''"
    if "\<not> paused st" "next_time st = Instant t" "t \<le> now"
  proof -
    have "d = 0" using that(3) by (simp add: d_def)
    then show ?thesis using fmt [OF that(1,2)] by (simp add: digits_0 padStart2_def)
  qed
  have mid: "\<not> paused st \<and> next_time st = Instant t \<longrightarrow>
         nextRotationCountdown now st =
           padStart2 (digits (d div 60000)) @ '':'' @ padStart2 (digits (d mod 60000 div 1000))
         \<and> decimal_value (digits (d div 60000)) = d div 60000
         \<and> decimal_value (digits (d mod 60000 div 1000)) = d mod 60000 div 1000
         \<and> d mod 60000 div 1000 < 60
         \<and> length (padStart2 (digits (d mod 60000 div 1000))) = 2
         \<and> 2 \<le> length (padStart2 (digits (d div 60000)))
         \<and> (d < 6000000 \<longrightarrow> length (nextRotationCountdown now st) = 5)"
  proof
    assume ab: "\<not> paused st \<and> next_time st = Instant t"
    then have a: "\<not> paused st" and b: "next_time st = Instant t" by simp_all
    have c7: "d < 6000000 \<longrightarrow> length (nextRotationCountdown now st) = 5"
      using five [OF a b] by blast
    show "nextRotationCountdown now st =
           padStart2 (digits (d div 60000)) @ '':'' @ padStart2 (digits (d mod 60000 div 1000))
         \<and> decimal_value (digits (d div 60000)) = d div 60000
         \<and> decimal_value (digits (d mod 60000 div 1000)) = d mod 60000 div 1000
         \<and> d mod 60000 div 1000 < 60
         \<and> length (padStart2 (digits (d mod 60000 div 1000))) = 2
         \<and> 2 \<le> length (padStart2 (digits (d div 60000)))
         \<and> (d < 6000000 \<longrightarrow> length (nextRotationCountdown now st) = 5)"
      using fmt [OF a b] decimal_value_digits [of "d div 60000"]
        decimal_value_digits [of "d mod 60000 div 1000"] secs slen mlen c7
      by blast
  qed
  have late: "\<not> paused st \<and> next_time st = Instant t \<and> t \<le> now \<longrightarrow>
         nextRotationCountdown now st = ''00:00''"
    using zero by blast
  from absent mid late reads_after_assign [of st now ts st0 cell0] show ?thesis by blast
qed

theorem countdown_total_clamped_witness:
  "\<not> paused (StatusData \<lparr>current_position = ''supine'', current_position_ko = [],
       next_rotation_time = Instant 3724000, is_paused = False, total_rotations = Some 3\<rparr>)
   \<and> nextRotationCountdown 1000 (StatusData \<lparr>current_position = ''supine'', current_position_ko = [],
       next_rotation_time = Instant 3724000, is_paused = False, total_rotations = Some 3\<rparr>)
     = ''62:03''
   \<and> (3724000::int) \<le> 4000000
   \<and> nextRotationCountdown 4000000 (StatusData \<lparr>current_position = ''supine'', current_position_ko = [],
       next_rotation_time = Instant 3724000, is_paused = False, total_rotations = Some 3\<rparr>)
     = ''00:00''
   \<and> next_time Null = Absent
   \<and> nextRotationCountdown 1000 Null = ''--:--''
   \<and> countdown_reads
        [Assign (StatusData \<lparr>current_position = ''supine'', current_position_ko = [],
       next_rotation_time = Instant 3724000, is_paused = False, total_rotations = Some 3\<rparr>),
         Read 1000, Read 2000, Read 4000000] Null None
     = [''62:03'', ''62:03'', ''62:03'']"
  using
    countdown_total_clamped [of "StatusData \<lparr>current_position = ''supine'', current_position_ko = [],
       next_rotation_time = Instant 3724000, is_paused = False, total_rotations = Some 3\<rparr>"
       1000 3724000 "[2000, 4000000]" Null None]
    countdown_total_clamped [of "StatusData \<lparr>current_position = ''supine'', current_position_ko = [],
       next_rotation_time = Instant 3724000, is_paused = False, total_rotations = Some 3\<rparr>"
       4000000 3724000]
    countdown_total_clamped [of Null 1000 0]
  by (simp add: digits_lt10 digits_ge10 padStart2_def)

subsection \<open>Paused schedule\<close>

text \<open>
  C6, as stated, fails: a paused status without a next rotation time shows \<open>--:--\<close>, not
  the paused placeholder; the test for a missing time comes first.
\<close>

theorem paused_without_time_shows_dashes:
  "paused (StatusData \<lparr>current_position = ''supine'', current_position_ko = [],
       next_rotation_time = Absent, is_paused = True, total_rotations = None\<rparr>)
   \<and> nextRotationCountdown 0 (StatusData \<lparr>current_position = ''supine'', current_position_ko = [],
       next_rotation_time = Absent, is_paused = True, total_rotations = None\<rparr>) = ''--:--''
   \<and> nextRotationCountdown 0 (StatusData \<lparr>current_position = ''supine'', current_position_ko = [],
       next_rotation_time = Absent, is_paused = True, total_rotations = None\<rparr>) \<noteq> paused_placeholder"
  by (simp add: nextRotationCountdown_def paused_placeholder_def)

text \<open>
  C6, amended. While the schedule is paused nothing is due, at any time. While the status
  is paused the countdown shows the paused placeholder whenever a next rotation time is
  present, whatever its value (an instant in the past or the future, or unparsable), and
  \<open>--:--\<close> when it is absent.
\<close>

theorem paused_not_due_and_placeholder:
  "(sched_paused s \<longrightarrow> isDue s now = False)
   \<and> (paused st \<and> next_time st \<noteq> Absent \<longrightarrow> nextRotationCountdown now' st = paused_placeholder)
   \<and> (paused st \<and> next_time st = Absent \<longrightarrow> nextRotationCountdown now' st = ''--:--'')"
  by (simp add: isDue_def nextRotationCountdown_def)

theorem paused_not_due_and_placeholder_witness:
  "sched_paused \<lparr>lastRotation = 0, interval = 5400000, sched_paused = True\<rparr>
   \<and> isDue \<lparr>lastRotation = 0, interval = 5400000, sched_paused = True\<rparr> 9000000 = False
   \<and> isDue \<lparr>lastRotation = 0, interval = 5400000, sched_paused = False\<rparr> 9000000 = True
   \<and> paused (StatusData \<lparr>current_position = ''supine'', current_position_ko = [],
       next_rotation_time = Instant 5400000, is_paused = True, total_rotations = None\<rparr>)
   \<and> next_time (StatusData \<lparr>current_position = ''supine'', current_position_ko = [],
       next_rotation_time = Instant 5400000, is_paused = True, total_rotations = None\<rparr>) \<noteq> Absent
   \<and> nextRotationCountdown 9000000 (StatusData \<lparr>current_position = ''supine'', current_position_ko = [],
       next_rotation_time = Instant 5400000, is_paused = True, total_rotations = None\<rparr>)
     = paused_placeholder"
  using
    paused_not_due_and_placeholder [of "\<lparr>lastRotation = 0, interval = 5400000, sched_paused = True\<rparr>"
      9000000 "StatusData \<lparr>current_position = ''supine'', current_position_ko = [],
       next_rotation_time = Instant 5400000, is_paused = True, total_rotations = None\<rparr>" 9000000]
  by (simp add: isDue_def)

end
